theory Spec2Isabelle
  imports Complex_Main "HOL-Library.Char_ord" "HOL-Library.List_Lexorder" "HOL-Library.Multiset"
    "HOL-Library.Code_Target_Nat"
begin

section \<open>Expense tracker: the persistence and aggregation core of app.py\<close>

text \<open>
  The application keeps its expenses in the text file \<^verbatim>\<open>expenses.csv\<close>. Four functions
  of \<^verbatim>\<open>app.py\<close> carry the logic, and the filters of \<^verbatim>\<open>main\<close> use the same data:
  \<^item> \<^verbatim>\<open>add_expense\<close> validates a candidate and appends one CSV row with \<^verbatim>\<open>csv.writer\<close>;
  \<^item> \<^verbatim>\<open>load_expenses\<close> reads the file with \<^verbatim>\<open>pandas.read_csv\<close>, converts two columns
    and drops the rows that hold a missing value;
  \<^item> \<^verbatim>\<open>create_monthly_summary\<close> and \<^verbatim>\<open>create_category_summary\<close> group and sum.

  Conventions of the embedding.
  \<^item> Text is \<^typ>\<open>string\<close>, one \<^typ>\<open>char\<close> per code point below 256; the file is written
    and read in one encoding.
  \<^item> The file is a \<^typ>\<open>string option\<close>: \<open>None\<close> when \<^verbatim>\<open>expenses.csv\<close> does not exist.
    Opening and writing never fail here, so the \<^verbatim>\<open>except\<close> branch of \<^verbatim>\<open>add_expense\<close> is
    reached by no input of the model.
  \<^item> An amount is an exact rational number. Python holds it in a binary float; the
    rounding of float sums is outside the embedding, and the text of an amount is modelled
    for the decimal amounts the entry form delivers (see \<open>str_float\<close>).
  \<^item> The calls into \<^verbatim>\<open>csv\<close> and \<^verbatim>\<open>pandas\<close> are modelled by definitions of their own, named
    after the library function, for the default options \<^verbatim>\<open>app.py\<close> uses.
\<close>

subsection \<open>Text\<close>

text \<open>\<^verbatim>\<open>str.isspace\<close> on one code point below 256, and \<^verbatim>\<open>str.strip()\<close>.\<close>

definition isspace :: "char \<Rightarrow> bool" where
  "isspace c = ((of_char c :: nat) \<in> {9, 10, 11, 12, 13, 28, 29, 30, 31, 32, 133, 160})"

definition strip :: "string \<Rightarrow> string" where
  "strip s = rev (dropWhile isspace (rev (dropWhile isspace s)))"

definition COMMA :: char where "COMMA = CHR 0x2C"
definition QUOTE :: char where "QUOTE = CHR 0x22"
definition CR :: char where "CR = CHR 0x0D"
definition LF :: char where "LF = CHR 0x0A"
definition SPACE :: char where "SPACE = CHR 0x20"
definition TAB :: char where "TAB = CHR 0x09"

text \<open>Decimal digits: \<open>dec n\<close> is \<^verbatim>\<open>str(n)\<close> for a natural number, \<open>zfill\<close> pads with zeros.\<close>

definition is_digit :: "char \<Rightarrow> bool" where
  "is_digit c = (48 \<le> (of_char c :: nat) \<and> (of_char c :: nat) \<le> 57)"

definition digit_char :: "nat \<Rightarrow> char" where
  "digit_char n = char_of (48 + n mod 10)"

definition digit_val :: "char \<Rightarrow> nat" where
  "digit_val c = of_char c - 48"

fun dec :: "nat \<Rightarrow> string" where
  "dec n = (if n < 10 then [digit_char n] else dec (n div 10) @ [digit_char (n mod 10)])"

declare dec.simps [simp del]

definition digits_val :: "string \<Rightarrow> nat" where
  "digits_val s = foldl (\<lambda>a c. 10 * a + digit_val c) 0 s"

definition zfill :: "nat \<Rightarrow> string \<Rightarrow> string" where
  "zfill w s = replicate (w - length s) (CHR ''0'') @ s"

subsection \<open>Dates\<close>

text \<open>
  \<^verbatim>\<open>datetime.date\<close>: year, month, day. Python builds only valid dates (\<open>valid_date\<close>) and
  compares two dates field by field, year first.
\<close>

record date =
  year :: nat
  month :: nat
  day :: nat

definition is_leap :: "nat \<Rightarrow> bool" where
  "is_leap y = (y mod 4 = 0 \<and> (y mod 100 \<noteq> 0 \<or> y mod 400 = 0))"

definition days_in_month :: "nat \<Rightarrow> nat \<Rightarrow> nat" where
  "days_in_month y m =
     (if m = 2 then (if is_leap y then 29 else 28)
      else if m = 4 \<or> m = 6 \<or> m = 9 \<or> m = 11 then 30 else 31)"

definition valid_date :: "date \<Rightarrow> bool" where
  "valid_date d =
     (1 \<le> year d \<and> year d \<le> 9999 \<and> 1 \<le> month d \<and> month d \<le> 12 \<and>
      1 \<le> day d \<and> day d \<le> days_in_month (year d) (month d))"

definition date_le :: "date \<Rightarrow> date \<Rightarrow> bool" where
  "date_le a b =
     (year a < year b \<or>
      (year a = year b \<and> (month a < month b \<or> (month a = month b \<and> day a \<le> day b))))"

text \<open>\<^verbatim>\<open>expense_date.strftime("%Y-%m-%d")\<close>.\<close>

definition strftime :: "date \<Rightarrow> string" where
  "strftime d =
     zfill 4 (dec (year d)) @ ''-'' @ zfill 2 (dec (month d)) @ ''-'' @ zfill 2 (dec (day d))"

subsection \<open>Amounts as text\<close>

text \<open>
  \<^verbatim>\<open>csv.writer\<close> writes a number as \<^verbatim>\<open>str(amount)\<close>. For a float that is the shortest decimal
  that reads back as the same float, in positional notation below \<open>10^16\<close>: the integer
  part, a point, and the fraction digits without trailing zeros, \<^verbatim>\<open>0\<close> when there are none
  (\<^verbatim>\<open>str(10.0) = '10.0'\<close>, \<^verbatim>\<open>str(12.5) = '12.5'\<close>, \<^verbatim>\<open>str(0.01) = '0.01'\<close>).
  \<open>frac_digits\<close> extracts at most 17 fraction digits, the most a float's text holds. The
  model is exact for the amounts of the entry form (\<open>form_amount\<close>: whole hundredths with
  at most 15 significant digits); the exponent notation of larger or smaller floats is not
  modelled.
\<close>

fun frac_digits :: "nat \<Rightarrow> rat \<Rightarrow> string" where
  "frac_digits 0 q = []"
| "frac_digits (Suc n) q =
     (if q = 0 then []
      else digit_char (nat \<lfloor>q * 10\<rfloor>) # frac_digits n (q * 10 - of_int \<lfloor>q * 10\<rfloor>))"

definition str_float :: "rat \<Rightarrow> string" where
  "str_float a =
     (let m = \<bar>a\<bar>; ip = \<lfloor>m\<rfloor>; fd = frac_digits 17 (m - of_int ip)
      in (if a < 0 then ''-'' else []) @ dec (nat ip) @ ''.'' @ (if fd = [] then ''0'' else fd))"


subsection \<open>Writing a row: csv.writer\<close>

text \<open>
  \<^verbatim>\<open>csv.writer(file).writerow(fields)\<close> in the default dialect (\<^verbatim>\<open>QUOTE_MINIMAL\<close>, delimiter
  comma, quote character \<^verbatim>\<open>"\<close> doubled inside a quoted field, line terminator CR LF): a
  field is quoted exactly when it holds a comma, a quote, a CR or an LF.
\<close>

definition needs_quotes :: "string \<Rightarrow> bool" where
  "needs_quotes f = (\<exists>c \<in> set f. c = COMMA \<or> c = QUOTE \<or> c = CR \<or> c = LF)"

definition double_quotes :: "string \<Rightarrow> string" where
  "double_quotes f = concat (map (\<lambda>c. if c = QUOTE then [QUOTE, QUOTE] else [c]) f)"

definition csv_field :: "string \<Rightarrow> string" where
  "csv_field f = (if needs_quotes f then [QUOTE] @ double_quotes f @ [QUOTE] else f)"

fun join_fields :: "string list \<Rightarrow> string" where
  "join_fields [] = []"
| "join_fields [f] = csv_field f"
| "join_fields (f # fs) = csv_field f @ [COMMA] @ join_fields fs"

definition writerow :: "string list \<Rightarrow> string" where
  "writerow fs = join_fields fs @ [CR, LF]"

subsection \<open>add_expense\<close>

text \<open>
  The two rejections of \<^verbatim>\<open>add_expense\<close>, named by the message it shows before returning
  \<^verbatim>\<open>False\<close>: \<open>EmptyCategory\<close> for "Category cannot be empty!" and \<open>NonPositiveAmount\<close>
  for "Amount must be greater than 0!". \<open>Inr ()\<close> is the return value \<^verbatim>\<open>True\<close>. The second
  component is the file after the call; mode \<^verbatim>\<open>"a"\<close> creates a missing file and writes at
  its end.
\<close>

datatype add_error = EmptyCategory | NonPositiveAmount

definition file_text :: "string option \<Rightarrow> string" where
  "file_text fs = (case fs of None \<Rightarrow> [] | Some t \<Rightarrow> t)"

definition add_expense ::
  "date \<Rightarrow> string \<Rightarrow> rat \<Rightarrow> string option \<Rightarrow> (add_error + unit) \<times> string option" where
  "add_expense expense_date category amount fs =
     (if strip category = [] then (Inl EmptyCategory, fs)
      else if amount \<le> 0 then (Inl NonPositiveAmount, fs)
      else
        let date_str = strftime expense_date
        in (Inr (), Some (file_text fs @ writerow [date_str, strip category, str_float amount])))"

subsection \<open>Reading the file: the tokenizer of pandas.read_csv\<close>

text \<open>
  \<^verbatim>\<open>pd.read_csv("expenses.csv", names=['date', 'category', 'amount'])\<close> runs the C
  tokenizer of pandas in its default dialect: delimiter comma, quote character \<^verbatim>\<open>"\<close> with
  doubling, LF, CR and CR LF as line ends, blank lines skipped. The model keeps the states
  of that tokenizer which the default dialect reaches. \<open>word\<close> is the field being read,
  \<open>row\<close> the fields of the line being read, \<open>lines\<close> the finished lines. A line that
  starts with blanks is held in \<open>word\<close> (state \<open>WHITESPACE_LINE\<close>) until a line end skips
  it or another character turns the blanks into the start of its first field. The
  tokenizer keeps each finished field as a C string, so a field ends at its first NUL
  character (\<open>c_string\<close>).
\<close>

datatype tok_state =
  START_RECORD | START_FIELD | IN_FIELD | IN_QUOTED_FIELD | QUOTE_IN_QUOTED_FIELD |
  EAT_CRNL | EAT_CRNL_NOP | WHITESPACE_LINE

record parser_t =
  state :: tok_state
  word :: string
  row :: "string list"
  lines :: "string list list"

datatype load_error = ParserError

definition push_char :: "char \<Rightarrow> parser_t \<Rightarrow> parser_t" where
  "push_char c p = p\<lparr>word := word p @ [c]\<rparr>"

definition NUL :: char where "NUL = CHR 0x00"

definition c_string :: "string \<Rightarrow> string" where
  "c_string s = takeWhile (\<lambda>c. c \<noteq> NUL) s"

definition end_field :: "parser_t \<Rightarrow> parser_t" where
  "end_field p = p\<lparr>row := row p @ [c_string (word p)], word := []\<rparr>"

definition end_line :: "parser_t \<Rightarrow> parser_t" where
  "end_line p = p\<lparr>lines := lines p @ [row p], row := [], state := START_RECORD\<rparr>"

definition in_field :: "char \<Rightarrow> parser_t \<Rightarrow> parser_t" where
  "in_field c p =
     (if c = LF then end_line (end_field p)
      else if c = CR then (end_field p)\<lparr>state := EAT_CRNL\<rparr>
      else if c = COMMA then (end_field p)\<lparr>state := START_FIELD\<rparr>
      else (push_char c p)\<lparr>state := IN_FIELD\<rparr>)"

definition start_field :: "char \<Rightarrow> parser_t \<Rightarrow> parser_t" where
  "start_field c p =
     (if c = LF then end_line (end_field p)
      else if c = CR then (end_field p)\<lparr>state := EAT_CRNL\<rparr>
      else if c = QUOTE then p\<lparr>state := IN_QUOTED_FIELD\<rparr>
      else if c = COMMA then (end_field p)\<lparr>state := START_FIELD\<rparr>
      else (push_char c p)\<lparr>state := IN_FIELD\<rparr>)"

definition start_record :: "char \<Rightarrow> parser_t \<Rightarrow> parser_t" where
  "start_record c p =
     (if c = LF then p\<lparr>state := START_RECORD\<rparr>
      else if c = CR then p\<lparr>state := EAT_CRNL_NOP\<rparr>
      else if c = SPACE \<or> c = TAB then (push_char c p)\<lparr>state := WHITESPACE_LINE\<rparr>
      else start_field c p)"

definition tokenize_step :: "char \<Rightarrow> parser_t \<Rightarrow> parser_t" where
  "tokenize_step c p =
     (case state p of
        START_RECORD \<Rightarrow> start_record c p
      | START_FIELD \<Rightarrow> start_field c p
      | IN_FIELD \<Rightarrow> in_field c p
      | IN_QUOTED_FIELD \<Rightarrow>
          (if c = QUOTE then p\<lparr>state := QUOTE_IN_QUOTED_FIELD\<rparr> else push_char c p)
      | QUOTE_IN_QUOTED_FIELD \<Rightarrow>
          (if c = QUOTE then (push_char c p)\<lparr>state := IN_QUOTED_FIELD\<rparr>
           else in_field c p)
      | EAT_CRNL \<Rightarrow>
          (if c = LF then end_line p else start_record c (end_line p))
      | EAT_CRNL_NOP \<Rightarrow>
          (if c = LF \<or> c = COMMA then p\<lparr>state := START_RECORD\<rparr> else start_record c p)
      | WHITESPACE_LINE \<Rightarrow>
          (if c = LF then p\<lparr>word := [], state := START_RECORD\<rparr>
           else if c = CR then p\<lparr>word := [], state := EAT_CRNL_NOP\<rparr>
           else if c = SPACE \<or> c = TAB then push_char c p
           else in_field c p))"

definition tokenize_bytes :: "string \<Rightarrow> parser_t \<Rightarrow> parser_t" where
  "tokenize_bytes s p = fold tokenize_step s p"

definition parser_init :: parser_t where
  "parser_init = \<lparr>state = START_RECORD, word = [], row = [], lines = []\<rparr>"

text \<open>
  At the end of the file an open field and an open line are closed; the end of the file
  inside a quoted field raises \<^verbatim>\<open>ParserError\<close> ("EOF inside string").
\<close>

definition handle_eof :: "parser_t \<Rightarrow> load_error + string list list" where
  "handle_eof p =
     (case state p of
        START_RECORD \<Rightarrow> Inr (lines p)
      | WHITESPACE_LINE \<Rightarrow> Inr (lines p)
      | EAT_CRNL_NOP \<Rightarrow> Inr (lines p)
      | IN_QUOTED_FIELD \<Rightarrow> Inl ParserError
      | EAT_CRNL \<Rightarrow> Inr (lines (end_line p))
      | _ \<Rightarrow> Inr (lines (end_line (end_field p))))"

definition tokenize :: "string \<Rightarrow> load_error + string list list" where
  "tokenize content = handle_eof (tokenize_bytes content parser_init)"

subsection \<open>Reading the file: columns and missing values\<close>

text \<open>
  With three names and no header row, the first line fixes the width: the larger of its
  field count and 3. A later line with more fields raises \<^verbatim>\<open>ParserError\<close> ("Expected 3
  fields in line 2, saw 4"; \<^verbatim>\<open>on_bad_lines\<close> is left at \<^verbatim>\<open>'error'\<close>); a line with fewer is
  filled with empty fields. When the width exceeds 3 the leading columns become the row
  index and the names apply to the last three. A field equal to one of \<open>na_values\<close> (the
  defaults of \<^verbatim>\<open>read_csv\<close>; quoted or not) is a missing value, \<open>None\<close>.

  The cells stay text here. pandas also converts a column whose every cell reads as a
  number or a truth value into that type; for the category column that changes how a
  category such as \<^verbatim>\<open>007\<close> is held, and it is not modelled.
\<close>

definition na_values :: "string list" where
  "na_values =
     [''-1.#IND'', ''1.#QNAN'', ''1.#IND'', ''-1.#QNAN'', ''#N/A N/A'', ''#N/A'', ''N/A'',
      ''n/a'', ''NA'', ''<NA>'', ''#NA'', ''NULL'', ''null'', ''NaN'', ''-NaN'', ''nan'',
      ''-nan'', ''None'', []]"

definition na_filter :: "string \<Rightarrow> string option" where
  "na_filter f = (if f \<in> set na_values then None else Some f)"

type_synonym frame_row = "string option \<times> string option \<times> string option"

definition named_columns :: "nat \<Rightarrow> string list \<Rightarrow> frame_row" where
  "named_columns width r =
     (let cells = map na_filter (r @ replicate (width - length r) []);
          data = drop (width - 3) cells
      in (data ! 0, data ! 1, data ! 2))"

definition read_csv :: "string \<Rightarrow> load_error + frame_row list" where
  "read_csv content =
     (case tokenize content of
        Inl e \<Rightarrow> Inl e
      | Inr [] \<Rightarrow> Inr []
      | Inr (r0 # rest) \<Rightarrow>
          (let width = max (length r0) 3
           in if list_ex (\<lambda>r. width < length r) rest then Inl ParserError
              else Inr (map (named_columns width) (r0 # rest))))"

subsection \<open>Reading the file: numbers and dates\<close>

text \<open>
  \<^verbatim>\<open>pd.to_numeric(..., errors='coerce')\<close> on a text cell: the number grammar of the pandas
  converter (\<^verbatim>\<open>xstrtod\<close>): blanks, a sign, digits with an optional point and fraction (one
  digit at least), an optional exponent, blanks; anything else is a missing value. The words
  pandas reads as infinities have no value among the rationals and count as not numeric.
\<close>

definition isspace_ascii :: "char \<Rightarrow> bool" where
  "isspace_ascii c = (c = SPACE \<or> (9 \<le> (of_char c :: nat) \<and> (of_char c :: nat) \<le> 13))"

definition split_sign :: "string \<Rightarrow> bool \<times> string" where
  "split_sign s =
     (case s of
        [] \<Rightarrow> (False, [])
      | c # t \<Rightarrow>
          if c = CHR ''-'' then (True, t) else if c = CHR ''+'' then (False, t) else (False, s))"

definition pow10 :: "int \<Rightarrow> rat" where
  "pow10 e = (if 0 \<le> e then 10 ^ nat e else 1 / 10 ^ nat (- e))"

definition exponent :: "string \<Rightarrow> int \<times> string" where
  "exponent p =
     (case p of
        [] \<Rightarrow> (0, [])
      | c # t \<Rightarrow>
          if c = CHR ''e'' \<or> c = CHR ''E'' then
            (let (negative, t1) = split_sign t; ed = takeWhile is_digit t1
             in if ed = [] then (0, p)
                else ((if negative then - int (digits_val ed) else int (digits_val ed)),
                      dropWhile is_digit t1))
          else (0, p))"

definition xstrtod :: "string \<Rightarrow> (rat \<times> string) option" where
  "xstrtod s =
     (let (negative, p1) = split_sign (dropWhile isspace_ascii s);
          ip = takeWhile is_digit p1;
          p2 = dropWhile is_digit p1;
          (fp, p3) =
            (case p2 of
               [] \<Rightarrow> ([], [])
             | c # t \<Rightarrow>
                 if c = CHR ''.'' then (takeWhile is_digit t, dropWhile is_digit t)
                 else ([], p2))
      in if ip = [] \<and> fp = [] then None
         else
           (let mant = of_nat (digits_val (ip @ fp)) / 10 ^ length fp;
                (ex, p4) = exponent p3
            in Some ((if negative then - mant else mant) * pow10 ex,
                     dropWhile isspace_ascii p4)))"

definition to_numeric :: "string \<Rightarrow> rat option" where
  "to_numeric cell = (case xstrtod cell of Some (v, []) \<Rightarrow> Some v | _ \<Rightarrow> None)"

text \<open>
  \<^verbatim>\<open>pd.to_datetime(..., errors='coerce')\<close> on a text cell, for the form \<^verbatim>\<open>YYYY-MM-DD\<close> that
  \<^verbatim>\<open>add_expense\<close> writes: a real calendar date inside the range of a nanosecond timestamp
  (1677-09-22 to 2262-04-11), else a missing value. pandas takes the date format from the
  first row and reads further forms; the model covers files whose dates are written in the
  ISO form and counts every other text as not a date.
\<close>

definition timestamp_min :: date where
  "timestamp_min = \<lparr>year = 1677, month = 9, day = 22\<rparr>"

definition timestamp_max :: date where
  "timestamp_max = \<lparr>year = 2262, month = 4, day = 11\<rparr>"

definition in_bounds :: "date \<Rightarrow> bool" where
  "in_bounds d = (date_le timestamp_min d \<and> date_le d timestamp_max)"

definition to_datetime :: "string \<Rightarrow> date option" where
  "to_datetime cell =
     (if length cell = 10 \<and> cell ! 4 = CHR ''-'' \<and> cell ! 7 = CHR ''-'' \<and>
         list_all is_digit (take 4 cell) \<and> list_all is_digit (take 2 (drop 5 cell)) \<and>
         list_all is_digit (drop 8 cell)
      then
        (let d = \<lparr>year = digits_val (take 4 cell), month = digits_val (take 2 (drop 5 cell)),
                  day = digits_val (drop 8 cell)\<rparr>
         in if valid_date d \<and> in_bounds d then Some d else None)
      else None)"

subsection \<open>load_expenses\<close>

text \<open>
  A row of the returned DataFrame. \<open>load_expenses\<close> returns \<open>Inl ParserError\<close> where the
  source catches the exception, shows "Error loading expenses" and returns the empty
  DataFrame; \<open>loaded\<close> is the DataFrame the caller gets in either case.
\<close>

record expense =
  date :: date
  category :: string
  amount :: rat

definition complete :: "frame_row \<Rightarrow> bool" where
  "complete x = (case x of (d, c, a) \<Rightarrow> d \<noteq> None \<and> c \<noteq> None \<and> a \<noteq> None)"

definition dropna :: "frame_row list \<Rightarrow> frame_row list" where
  "dropna df = filter complete df"

definition coerce :: "frame_row \<Rightarrow> date option \<times> string option \<times> rat option" where
  "coerce r = (case r of (d, c, a) \<Rightarrow> (Option.bind d to_datetime, c, Option.bind a to_numeric))"

definition typed_record :: "date option \<times> string option \<times> rat option \<Rightarrow> expense option" where
  "typed_record x =
     (case x of
        (Some d, Some c, Some a) \<Rightarrow> Some \<lparr>date = d, category = c, amount = a\<rparr>
      | _ \<Rightarrow> None)"

definition dropna_typed :: "(date option \<times> string option \<times> rat option) list \<Rightarrow> expense list" where
  "dropna_typed df = List.map_filter typed_record df"

definition load_expenses :: "string option \<Rightarrow> load_error + expense list" where
  "load_expenses fs =
     (case fs of
        None \<Rightarrow> Inr []
      | Some content \<Rightarrow>
          (case read_csv content of
             Inl e \<Rightarrow> Inl e
           | Inr df0 \<Rightarrow>
               (let df = dropna df0
                in if df \<noteq> [] then Inr (dropna_typed (map coerce df)) else Inr [])))"





subsection \<open>The summaries\<close>

text \<open>
  \<^verbatim>\<open>df.groupby(key)['amount'].sum().reset_index()\<close>: one row per distinct key, the keys in
  ascending order (\<^verbatim>\<open>groupby\<close> sorts them), each with the sum of its rows' amounts.
\<close>

definition groupby_sum :: "(expense \<Rightarrow> 'k::linorder) \<Rightarrow> expense list \<Rightarrow> ('k \<times> rat) list" where
  "groupby_sum key df =
     map (\<lambda>k. (k, sum_list (map amount (filter (\<lambda>r. key r = k) df))))
       (sort (remdups (map key df)))"

text \<open>
  \<^verbatim>\<open>.dt.to_period('M')\<close> gives a monthly period, held as a count of months and ordered by
  it; \<^verbatim>\<open>astype(str)\<close> prints it as \<^verbatim>\<open>YYYY-MM\<close>.
\<close>

definition to_period_M :: "date \<Rightarrow> nat" where
  "to_period_M d = year d * 12 + (month d - 1)"

definition period_str :: "nat \<Rightarrow> string" where
  "period_str p = zfill 4 (dec (p div 12)) @ ''-'' @ zfill 2 (dec (p mod 12 + 1))"

definition create_monthly_summary :: "expense list \<Rightarrow> (string \<times> rat) list" where
  "create_monthly_summary df =
     (if df = [] then []
      else map (\<lambda>(m, total). (period_str m, total))
             (groupby_sum (\<lambda>r. to_period_M (date r)) df))"

text \<open>
  \<^verbatim>\<open>sort_values('Total Amount', ascending=False)\<close>: pandas reverses the rows, sorts them
  ascending and reverses the result. The default sort kind is quicksort, for which pandas
  promises no order among equal totals; the model sorts stably, so equal totals keep the
  order \<^verbatim>\<open>groupby\<close> gave them.
\<close>

definition sort_values_desc :: "(string \<times> rat) list \<Rightarrow> (string \<times> rat) list" where
  "sort_values_desc rows = rev (sort_key snd (rev rows))"

definition create_category_summary :: "expense list \<Rightarrow> (string \<times> rat) list" where
  "create_category_summary df =
     (if df = [] then [] else sort_values_desc (groupby_sum category df))"

subsection \<open>The date-range filter of main\<close>

text \<open>
  Lines 238 to 243 of \<^verbatim>\<open>app.py\<close>: the filter applies when the date input holds two dates,
  and keeps the rows with \<^verbatim>\<open>date >= start_date\<close> and \<^verbatim>\<open>date <= end_date\<close>.
\<close>

definition filter_date_range :: "date list \<Rightarrow> expense list \<Rightarrow> expense list" where
  "filter_date_range date_range df =
     (case date_range of
        [start_date, end_date] \<Rightarrow>
          filter (\<lambda>r. date_le start_date (date r) \<and> date_le (date r) end_date) df
      | _ \<Rightarrow> df)"

subsection \<open>What the specification asks for\<close>




definition first_seen :: "'a list \<Rightarrow> 'a list" where
  "first_seen xs = rev (remdups (rev xs))"

definition category_summary_spec :: "expense list \<Rightarrow> (string \<times> rat) list" where
  "category_summary_spec df =
     rev (sort_key snd (rev
       (map (\<lambda>k. (k, sum_list (map amount (filter (\<lambda>r. category r = k) df))))
          (first_seen (map category df)))))"

definition mk_expense :: "nat \<Rightarrow> nat \<Rightarrow> nat \<Rightarrow> string \<Rightarrow> rat \<Rightarrow> expense" where
  "mk_expense y m d c a = \<lparr>date = \<lparr>year = y, month = m, day = d\<rparr>, category = c, amount = a\<rparr>"

definition month_key :: "date \<Rightarrow> string" where
  "month_key d = zfill 4 (dec (year d)) @ ''-'' @ zfill 2 (dec (month d))"


section \<open>Properties\<close>

subsection \<open>Grouping and sorting\<close>

lemma groupby_sum_keys: "map fst (groupby_sum key df) = sort (remdups (map key df))"
  by (simp add: groupby_sum_def comp_def)






lemma month_arith:
  fixes y m :: nat
  assumes "1 \<le> m" "m \<le> 12"
  shows "(y * 12 + (m - 1)) div 12 = y" "(y * 12 + (m - 1)) mod 12 + 1 = m"
  using assms by (cases m; simp)+

lemma period_of_valid:
  "valid_date d \<Longrightarrow> period_str (to_period_M d) = month_key d"
proof -
  assume "valid_date d"
  then have m: "1 \<le> month d" "month d \<le> 12" by (auto simp: valid_date_def)
  show ?thesis
    unfolding period_str_def to_period_M_def month_key_def
    by (simp only: month_arith [OF m])
qed

lemma period_eq_iff:
  assumes "valid_date a" "valid_date b"
  shows "to_period_M a = to_period_M b \<longleftrightarrow> year a = year b \<and> month a = month b"
proof -
  have ma: "1 \<le> month a" "month a \<le> 12" and mb: "1 \<le> month b" "month b \<le> 12"
    using assms by (auto simp: valid_date_def)
  have "year a * 12 + (month a - 1) = year b * 12 + (month b - 1) \<Longrightarrow> year a = year b"
    using ma mb by arith
  then show ?thesis using ma mb by (auto simp: to_period_M_def)
qed

lemma groupby_sum_length: "length (groupby_sum key df) = card (key ` set df)"
  by (simp add: groupby_sum_def length_remdups_card_conv)

lemma groupby_sum_member:
  "r \<in> set df \<Longrightarrow>
   (key r, sum_list (map amount (filter (\<lambda>x. key x = key r) df))) \<in> set (groupby_sum key df)"
  by (auto simp: groupby_sum_def)

lemma groupby_sum_row:
  "(k, t) \<in> set (groupby_sum key df) \<Longrightarrow>
   (\<exists>r \<in> set df. key r = k) \<and> t = sum_list (map amount (filter (\<lambda>x. key x = k) df))"
  by (auto simp: groupby_sum_def)

lemma monthly_summary_length:
  assumes "\<forall>r\<in>set df. valid_date (date r)"
  shows "length (create_monthly_summary df)
    = card ((\<lambda>r. (year (date r), month (date r))) ` set df)"
proof -
  let ?key = "\<lambda>r. to_period_M (date r)"
  let ?ym = "\<lambda>r. (year (date r), month (date r))"
  let ?g = "\<lambda>p. fst p * 12 + (snd p - 1)"
  have inj: "inj_on ?g (?ym ` set df)"
  proof (rule inj_onI)
    fix p q assume p: "p \<in> ?ym ` set df" and q: "q \<in> ?ym ` set df" and e: "?g p = ?g q"
    obtain a where a: "a \<in> set df" "p = ?ym a" using p by auto
    obtain b where b: "b \<in> set df" "q = ?ym b" using q by auto
    have "to_period_M (date a) = to_period_M (date b)"
      using e a b by (simp add: to_period_M_def)
    then show "p = q" using a b assms period_eq_iff by auto
  qed
  have "?key ` set df = ?g ` (?ym ` set df)"
    by (simp add: image_image to_period_M_def)
  then have "card (?key ` set df) = card (?ym ` set df)"
    using inj by (simp add: card_image)
  then show ?thesis
    by (cases "df = []") (simp_all add: create_monthly_summary_def groupby_sum_length)
qed

lemma monthly_summary_image:
  "(k, t) \<in> set xs \<Longrightarrow> (period_str k, t) \<in> set (map (\<lambda>(m, total). (period_str m, total)) xs)"
  by (induction xs) auto

lemma monthly_summary_member:
  assumes v: "\<forall>r\<in>set df. valid_date (date r)" and r: "r \<in> set df"
  shows "(month_key (date r),
          sum_list (map amount (filter (\<lambda>x. year (date x) = year (date r) \<and>
                                             month (date x) = month (date r)) df)))
         \<in> set (create_monthly_summary df)"
proof -
  let ?key = "\<lambda>r. to_period_M (date r)"
  have f: "filter (\<lambda>x. ?key x = ?key r) df
      = filter (\<lambda>x. year (date x) = year (date r) \<and> month (date x) = month (date r)) df"
    by (rule filter_cong) (use v r period_eq_iff in auto)
  have "(?key r, sum_list (map amount (filter (\<lambda>x. ?key x = ?key r) df)))
      \<in> set (groupby_sum ?key df)"
    using r by (rule groupby_sum_member)
  then have "(period_str (?key r), sum_list (map amount (filter (\<lambda>x. ?key x = ?key r) df)))
      \<in> set (create_monthly_summary df)"
    using r monthly_summary_image [of "?key r" _ "groupby_sum ?key df"]
    by (auto simp: create_monthly_summary_def)
  then show ?thesis using f v r by (simp add: period_of_valid)
qed

lemma monthly_summary_row:
  assumes v: "\<forall>r\<in>set df. valid_date (date r)" and rw: "sr \<in> set (create_monthly_summary df)"
  shows "\<exists>r\<in>set df. fst sr = month_key (date r)"
proof -
  let ?key = "\<lambda>r. to_period_M (date r)"
  from rw obtain k t where kt: "(k, t) \<in> set (groupby_sum ?key df)" "sr = (period_str k, t)"
    by (auto simp: create_monthly_summary_def split: if_splits)
  then obtain r where "r \<in> set df" "?key r = k" using groupby_sum_row [OF kt(1)] by auto
  then show ?thesis using kt v by (auto simp: period_of_valid intro!: bexI [of _ r])
qed

lemma sort_values_desc_set: "set (sort_values_desc rows) = set rows"
  by (simp add: sort_values_desc_def)

lemma sort_values_desc_sorted: "sorted (rev (map snd (sort_values_desc rows)))"
  by (simp add: sort_values_desc_def rev_map [symmetric])

lemma sort_values_desc_distinct:
  "distinct (map fst (sort_values_desc rows)) = distinct (map fst rows)"
proof -
  have "mset (map fst (sort_values_desc rows)) = mset (map fst rows)"
    by (simp add: sort_values_desc_def)
  then show ?thesis by (rule mset_eq_imp_distinct_iff)
qed

lemma category_summary_unfold:
  "create_category_summary df = sort_values_desc (groupby_sum category df)"
  by (simp add: create_category_summary_def sort_values_desc_def groupby_sum_def)



subsection \<open>The category summary\<close>

text \<open>
  Claim C4, as amended: the category summary has one row per distinct category, each with
  the sum of that category's amounts, and the totals fall from row to row. Nothing is
  promised for equal totals: \<open>groupby_sum\<close> has put the categories in ascending order
  before the sort, so the order of first occurrence cannot decide a tie.
\<close>

theorem category_summary_sorted:
  "distinct (map fst (create_category_summary df)) \<and>
   set (map fst (create_category_summary df)) = category ` set df \<and>
   (\<forall>sr \<in> set (create_category_summary df).
      snd sr = sum_list (map amount (filter (\<lambda>r. category r = fst sr) df))) \<and>
   sorted (rev (map snd (create_category_summary df)))"
proof (intro conjI)
  show "distinct (map fst (create_category_summary df))"
    by (simp add: category_summary_unfold sort_values_desc_distinct groupby_sum_keys)
  have "set (map fst (create_category_summary df)) = set (map fst (groupby_sum category df))"
    by (simp add: category_summary_unfold sort_values_desc_set)
  then show "set (map fst (create_category_summary df)) = category ` set df"
    by (simp only: groupby_sum_keys) simp
  show "\<forall>sr \<in> set (create_category_summary df).
      snd sr = sum_list (map amount (filter (\<lambda>r. category r = fst sr) df))"
    using groupby_sum_row [of _ _ category df]
    by (auto simp: category_summary_unfold sort_values_desc_set)
  show "sorted (rev (map snd (create_category_summary df)))"
    by (simp only: category_summary_unfold sort_values_desc_sorted)
qed


theorem category_summary_sorted_witness:
  "create_category_summary
     [mk_expense 2024 1 1 ''Food'' 10, mk_expense 2024 1 2 ''Travel'' 30,
      mk_expense 2024 1 3 ''Food'' 5] = [(''Travel'', 30), (''Food'', 15)] \<and>
   sorted (rev (map snd (create_category_summary
     [mk_expense 2024 1 1 ''Food'' 10, mk_expense 2024 1 2 ''Travel'' 30,
      mk_expense 2024 1 3 ''Food'' 5])))"
proof
  show "create_category_summary
     [mk_expense 2024 1 1 ''Food'' 10, mk_expense 2024 1 2 ''Travel'' 30,
      mk_expense 2024 1 3 ''Food'' 5] = [(''Travel'', 30), (''Food'', 15)]"
    by code_simp
  show "sorted (rev (map snd (create_category_summary
     [mk_expense 2024 1 1 ''Food'' 10, mk_expense 2024 1 2 ''Travel'' 30,
      mk_expense 2024 1 3 ''Food'' 5])))"
    using category_summary_sorted by (rule conjunct2 [THEN conjunct2, THEN conjunct2])
qed

text \<open>
  The claim as stated fails: Travel occurs first and ties with Food, the specified summary
  lists Travel first, the code lists Food first; and the code gives the same summary when
  Food occurs first.
\<close>

theorem category_summary_tie_counterexample:
  "create_category_summary [mk_expense 2024 1 1 ''Travel'' 10, mk_expense 2024 1 2 ''Food'' 10]
     = [(''Food'', 10), (''Travel'', 10)] \<and>
   category_summary_spec [mk_expense 2024 1 1 ''Travel'' 10, mk_expense 2024 1 2 ''Food'' 10]
     = [(''Travel'', 10), (''Food'', 10)] \<and>
   create_category_summary [mk_expense 2024 1 2 ''Food'' 10, mk_expense 2024 1 1 ''Travel'' 10]
     = [(''Food'', 10), (''Travel'', 10)]"
  by code_simp

subsection \<open>The monthly summary\<close>

text \<open>
  Claim C7: the empty record set gives the empty summary; for records with valid dates
  the summary has one row per year and month that occurs (the day plays no part), the key
  of a record's row is its \<^verbatim>\<open>YYYY-MM\<close> and its total is the sum of the amounts of all
  records of that year and month, and every row belongs to some record's month; the two
  records of the specification's example give \<^verbatim>\<open>2024-01\<close>: 10 and \<^verbatim>\<open>2024-02\<close>: 20.
\<close>

theorem monthly_summary_groups:
  "create_monthly_summary [] = [] \<and>
   ((\<forall>r\<in>set df. valid_date (date r)) \<longrightarrow>
      length (create_monthly_summary df)
        = card ((\<lambda>r. (year (date r), month (date r))) ` set df) \<and>
      (\<forall>r\<in>set df.
         (month_key (date r),
          sum_list (map amount (filter (\<lambda>x. year (date x) = year (date r) \<and>
                                             month (date x) = month (date r)) df)))
         \<in> set (create_monthly_summary df)) \<and>
      (\<forall>sr\<in>set (create_monthly_summary df). \<exists>r\<in>set df. fst sr = month_key (date r))) \<and>
   create_monthly_summary [mk_expense 2024 1 15 ''Food'' 10, mk_expense 2024 2 1 ''Food'' 20]
     = [(''2024-01'', 10), (''2024-02'', 20)]"
proof (intro conjI impI)
  show "create_monthly_summary [] = []" by (simp add: create_monthly_summary_def)
  show "create_monthly_summary [mk_expense 2024 1 15 ''Food'' 10, mk_expense 2024 2 1 ''Food'' 20]
     = [(''2024-01'', 10), (''2024-02'', 20)]"
    by code_simp
next
  assume v: "\<forall>r\<in>set df. valid_date (date r)"
  show "length (create_monthly_summary df)
        = card ((\<lambda>r. (year (date r), month (date r))) ` set df)"
    using v by (rule monthly_summary_length)
  show "\<forall>r\<in>set df.
         (month_key (date r),
          sum_list (map amount (filter (\<lambda>x. year (date x) = year (date r) \<and>
                                             month (date x) = month (date r)) df)))
         \<in> set (create_monthly_summary df)"
    using v monthly_summary_member by blast
  show "\<forall>sr\<in>set (create_monthly_summary df). \<exists>r\<in>set df. fst sr = month_key (date r)"
    using v monthly_summary_row by blast
qed

theorem monthly_summary_groups_witness:
  "list_all (\<lambda>r. valid_date (date r))
     [mk_expense 2024 1 15 ''Food'' 10, mk_expense 2024 2 1 ''Food'' 20,
      mk_expense 2024 1 20 ''Rent'' 5] \<and>
   (''2024-01'', 15) \<in> set (create_monthly_summary
     [mk_expense 2024 1 15 ''Food'' 10, mk_expense 2024 2 1 ''Food'' 20,
      mk_expense 2024 1 20 ''Rent'' 5])"
proof -
  let ?df = "[mk_expense 2024 1 15 ''Food'' 10, mk_expense 2024 2 1 ''Food'' 20,
      mk_expense 2024 1 20 ''Rent'' 5]"
  have v: "\<forall>r\<in>set ?df. valid_date (date r)"
    by (simp add: mk_expense_def valid_date_def days_in_month_def)
  have k: "month_key (date (mk_expense 2024 1 15 ''Food'' 10)) = ''2024-01''"
    by code_simp
  have t: "sum_list (map amount (filter (\<lambda>x. year (date x) = year (date (mk_expense 2024 1 15 ''Food'' 10)) \<and>
              month (date x) = month (date (mk_expense 2024 1 15 ''Food'' 10))) ?df)) = 15"
    by (simp add: mk_expense_def)
  have "\<forall>r\<in>set ?df.
         (month_key (date r),
          sum_list (map amount (filter (\<lambda>x. year (date x) = year (date r) \<and>
                                             month (date x) = month (date r)) ?df)))
         \<in> set (create_monthly_summary ?df)"
    using v monthly_summary_groups [of ?df] by blast
  then have "(month_key (date (mk_expense 2024 1 15 ''Food'' 10)),
          sum_list (map amount (filter (\<lambda>x. year (date x) = year (date (mk_expense 2024 1 15 ''Food'' 10)) \<and>
              month (date x) = month (date (mk_expense 2024 1 15 ''Food'' 10))) ?df)))
         \<in> set (create_monthly_summary ?df)"
    by (rule bspec) simp
  then have "(''2024-01'', 15) \<in> set (create_monthly_summary ?df)"
    by (simp only: k t)
  moreover have "list_all (\<lambda>r. valid_date (date r)) ?df"
    using v by (simp only: list_all_iff)
  ultimately show ?thesis by (rule conjI [rotated])
qed

subsection \<open>Rejected input\<close>

text \<open>
  Claim C6: when the trimmed category is empty, \<open>add_expense\<close> fails with
  \<open>EmptyCategory\<close>, whatever the amount is (the category is checked first); when the
  category is fine and the amount is at most 0, it fails with \<open>NonPositiveAmount\<close>. In
  both cases the file is the one it was: absent if it was absent, the same text otherwise.
\<close>

theorem add_expense_rejects:
  "(strip cat = [] \<longrightarrow> add_expense d cat amt fs = (Inl EmptyCategory, fs)) \<and>
   (strip cat \<noteq> [] \<and> amt \<le> 0 \<longrightarrow> add_expense d cat amt fs = (Inl NonPositiveAmount, fs))"
  by (simp add: add_expense_def)

theorem add_expense_rejects_witness:
  "add_expense \<lparr>year = 2024, month = 1, day = 15\<rparr> ''   '' (- 5) None
     = (Inl EmptyCategory, None) \<and>
   add_expense \<lparr>year = 2024, month = 1, day = 15\<rparr> ''Food'' 0 (Some ''2024-01-01,Food,1.0'')
     = (Inl NonPositiveAmount, Some ''2024-01-01,Food,1.0'')"
proof -
  have blank: "strip ''   '' = []" by code_simp
  have food: "strip ''Food'' \<noteq> []" by code_simp
  show ?thesis
    using blank food
      add_expense_rejects [of "''   ''" "\<lparr>year = 2024, month = 1, day = 15\<rparr>" "- 5" None]
      add_expense_rejects [of "''Food''" "\<lparr>year = 2024, month = 1, day = 15\<rparr>" 0
        "Some ''2024-01-01,Food,1.0''"]
    by simp
qed

subsection \<open>The date-range filter\<close>

lemma date_le_trans: "date_le a b \<Longrightarrow> date_le b c \<Longrightarrow> date_le a c"
  unfolding date_le_def by auto

lemma date_le_total: "date_le a b \<or> date_le b a"
  unfolding date_le_def by auto

text \<open>
  Claim C8: for a start and an end date the filter keeps, in their order, exactly the
  records whose date lies between the two, both ends included; when the start lies after
  the end (\<open>start \<le> end\<close> fails) the result is the empty record set: no error, and
  the bounds are not swapped.
\<close>

theorem filter_date_range_inclusive:
  "filter_date_range [s, e] df = filter (\<lambda>r. date_le s (date r) \<and> date_le (date r) e) df \<and>
   (\<forall>r. r \<in> set (filter_date_range [s, e] df) \<longleftrightarrow>
        r \<in> set df \<and> date_le s (date r) \<and> date_le (date r) e) \<and>
   (\<not> date_le s e \<longrightarrow> filter_date_range [s, e] df = [])"
proof -
  have eq: "filter_date_range [s, e] df
      = filter (\<lambda>r. date_le s (date r) \<and> date_le (date r) e) df"
    by (simp add: filter_date_range_def)
  have "\<not> date_le s e \<Longrightarrow> filter (\<lambda>r. date_le s (date r) \<and> date_le (date r) e) df = []"
    using date_le_trans by (auto simp: filter_empty_conv)
  then show ?thesis using eq by auto
qed

theorem filter_date_range_inclusive_witness:
  "\<not> date_le \<lparr>year = 2024, month = 2, day = 1\<rparr> \<lparr>year = 2024, month = 1, day = 1\<rparr> \<and>
   filter_date_range [\<lparr>year = 2024, month = 2, day = 1\<rparr>, \<lparr>year = 2024, month = 1, day = 1\<rparr>]
     [\<lparr>date = \<lparr>year = 2024, month = 1, day = 15\<rparr>, category = ''Food'', amount = 10\<rparr>] = []"
proof -
  have inv: "\<not> date_le \<lparr>year = 2024, month = 2, day = 1\<rparr> \<lparr>year = 2024, month = 1, day = 1\<rparr>"
    by (simp add: date_le_def)
  show ?thesis
    using inv
      filter_date_range_inclusive [of "\<lparr>year = 2024, month = 2, day = 1\<rparr>"
        "\<lparr>year = 2024, month = 1, day = 1\<rparr>"
        "[\<lparr>date = \<lparr>year = 2024, month = 1, day = 15\<rparr>, category = ''Food'', amount = 10\<rparr>]"]
    by blast
qed

subsection \<open>Reloading the file\<close>

























subsection \<open>Digits and dates as text\<close>


















subsection \<open>Amounts as text\<close>










subsection \<open>Tokenizing what csv.writer wrote\<close>













subsection \<open>Appending a row and reloading\<close>



















subsection \<open>The appended row\<close>




subsection \<open>Categories that contain a comma\<close>



subsection \<open>A category that reads as a missing value\<close>

text \<open>
  Claim C1 fails on the code at the category \<^verbatim>\<open>NA\<close>: \<open>add_expense\<close> accepts the record
  and appends \<^verbatim>\<open>2024-01-15,NA,10.0\<close>, and \<open>load_expenses\<close> then returns the empty
  record set, because \<^verbatim>\<open>read_csv\<close> reads \<^verbatim>\<open>NA\<close> as a missing value and \<^verbatim>\<open>dropna\<close> removes
  the row.
\<close>

theorem add_then_reload_missing_value:
  "add_expense \<lparr>year = 2024, month = 1, day = 15\<rparr> ''NA'' 10 None
     = (Inr (), Some (''2024-01-15,NA,10.0'' @ [CR, LF])) \<and>
   load_expenses (snd (add_expense \<lparr>year = 2024, month = 1, day = 15\<rparr> ''NA'' 10 None)) = Inr []"
  by code_simp

end
